theory Spec2Isabelle
  imports Main "HOL-Library.Word" "HOL-Library.Sublist"
begin

section \<open>Input media records of telegram/files/inputmedia.py\<close>

text \<open>
  The module defines five classes, \<open>InputMediaAnimation\<close>, \<open>InputMediaPhoto\<close>,
  \<open>InputMediaVideo\<close>, \<open>InputMediaAudio\<close> and \<open>InputMediaDocument\<close>, whose
  constructors assign attributes (some of them only under a truthiness test) and whose
  common base class \<open>InputMedia\<close> overrides \<open>to_dict\<close>.

  A Python object is modelled by its attribute dictionary, a map from attribute names
  to values: an attribute that was never assigned is absent from the map, an attribute
  assigned \<open>None\<close> is present with the value \<open>PNone\<close>. A raise is a value \<open>Inl e\<close>
  of the result type.
\<close>

subsection \<open>Values\<close>

type_synonym bytes = "8 word list"

text \<open>An open file object, identified by its descriptor.\<close>

datatype file_like = FileLike nat

datatype payload = Bytes bytes | Handle file_like

text \<open>
  Modelled from the spec: the class \<open>InputFile\<close> (telegram/files/inputfile.py) is not
  among the sources. The spec calls it an attachment-tagged reference: it wraps the byte
  payload or file handle, and when tagged for attachment it carries a generated
  identifier under which the transport layer sends the payload. The custom file name is
  kept as given.
\<close>

record input_file =
  input_file_data :: payload
  attach :: "string option"
  filename :: "string option"

text \<open>
  Modelled from the spec: the class \<open>MessageEntity\<close> is not among the sources. The spec's
  glossary describes a caption entity as a structured annotation with a kind, an offset
  and a length.
\<close>

record message_entity =
  entity_type :: string
  entity_offset :: int
  entity_length :: int

text \<open>
  The Python values that occur as attributes of the five classes and in the mappings that
  \<open>to_dict\<close> returns. \<open>PDefaultValue v\<close> is an instance of the class \<open>DefaultValue\<close> of
  telegram/utils/helpers.py wrapping \<open>v\<close>; \<open>PAttach k\<close> is the serialized form of an
  attachment-tagged input file, the reference to the attachment key \<open>k\<close>.
\<close>

datatype pyval =
    PNone
  | PStr string
  | PInt int
  | PBool bool
  | PBytes bytes
  | PDefaultValue pyval
  | PInputFile input_file
  | PEntity message_entity
  | PAttach string
  | PList "pyval list"
  | PDict "string \<Rightarrow> pyval option"

type_synonym attrs = "string \<Rightarrow> pyval option"

datatype error = TypeError | AttributeError

subsection \<open>Constructor arguments\<close>

text \<open>
  Modelled from the spec: the constant \<open>DEFAULT_NONE\<close> and the class \<open>DefaultValue\<close> of
  telegram/utils/helpers.py are not among the sources and the spec does not mention them.
  The annotation \<open>parse_mode: Union[str, DefaultValue] = DEFAULT_NONE\<close> of every
  constructor shows that \<open>DEFAULT_NONE\<close> is an instance of \<open>DefaultValue\<close>, an object and
  not \<open>None\<close>; it is taken as the instance that wraps \<open>None\<close>. A caller passes a string
  or leaves the default; an explicit \<open>None\<close> is admitted as well.
\<close>

datatype parse_mode_arg = ParseModeNone | ParseModeStr string | DEFAULT_NONE

fun parse_mode_val :: "parse_mode_arg \<Rightarrow> pyval" where
  "parse_mode_val ParseModeNone = PNone"
| "parse_mode_val (ParseModeStr s) = PStr s"
| "parse_mode_val DEFAULT_NONE = PDefaultValue PNone"

text \<open>
  \<open>FileInput\<close> of telegram/utils/types.py: a string (a file id or a URL), a byte payload or
  a file object. (The annotation also admits a \<open>pathlib.Path\<close>; the spec gives it no wire
  form and it is left out of the model.)
\<close>

datatype file_input = FStr string | FBytes bytes | FFile file_like

text \<open>
  Modelled from the spec: the metadata classes \<open>Animation\<close>, \<open>Video\<close>, \<open>Audio\<close>,
  \<open>PhotoSize\<close> and \<open>Document\<close> are not among the sources. Only the attributes that the
  constructors read are kept: the remote identifier and the descriptive fields the spec
  names (width, height, duration; duration, performer, title). Performer and title of an
  audio may be \<open>None\<close>.
\<close>

record animation =
  animation_file_id :: string
  animation_width :: int
  animation_height :: int
  animation_duration :: int

record video =
  video_file_id :: string
  video_width :: int
  video_height :: int
  video_duration :: int

record audio =
  audio_file_id :: string
  audio_duration :: int
  audio_performer :: "string option"
  audio_title :: "string option"

record photo_size =
  photo_size_file_id :: string

record document =
  document_file_id :: string

text \<open>Values of other types, which no constructor declares for \<open>media\<close>.\<close>

datatype other_input = ONone | OInt int | OBool bool

text \<open>
  What a caller can pass as \<open>media\<close>: a \<open>FileInput\<close>, one of the metadata objects, or a
  value of another type.
\<close>

datatype media_input =
    MFileInput file_input
  | MAnimation animation
  | MAudio audio
  | MDocument document
  | MPhotoSize photo_size
  | MVideo video
  | MOther other_input

datatype tg_type = TAnimation | TAudio | TDocument | TPhotoSize | TVideo

subsection \<open>Helpers that are not part of the module\<close>

text \<open>
  Modelled from the spec: the constructor of \<open>InputFile\<close> is not among the sources. With
  \<open>attach\<close> set, the file is tagged with a generated identifier (\<open>uuid\<close>, an input of the
  model since the generator is not a function of the arguments).
\<close>

definition InputFile :: "payload \<Rightarrow> bool \<Rightarrow> string option \<Rightarrow> string \<Rightarrow> input_file" where
  "InputFile obj attach_flag name uuid =
     \<lparr>input_file_data = obj,
      attach = (if attach_flag then Some uuid else None),
      filename = name\<rparr>"

text \<open>\<open>isinstance(file_input, tg_type)\<close> and the \<open>file_id\<close> of a metadata object.\<close>

fun tg_file_id :: "media_input \<Rightarrow> tg_type \<Rightarrow> string option" where
  "tg_file_id (MAnimation a) TAnimation = Some (animation_file_id a)"
| "tg_file_id (MAudio a) TAudio = Some (audio_file_id a)"
| "tg_file_id (MDocument d) TDocument = Some (document_file_id d)"
| "tg_file_id (MPhotoSize p) TPhotoSize = Some (photo_size_file_id p)"
| "tg_file_id (MVideo v) TVideo = Some (video_file_id v)"
| "tg_file_id _ _ = None"

text \<open>
  Modelled from the spec: \<open>parse_file_input\<close> of telegram/utils/helpers.py is not among the
  sources. The spec's media-reference resolver: strings pass through unchanged; byte and
  handle inputs are wrapped into an attachment-tagged reference; a metadata object of the
  expected class gives its remote identifier; an input of any other type fails with a type
  error.
\<close>

fun parse_file_input ::
  "media_input \<Rightarrow> tg_type option \<Rightarrow> bool \<Rightarrow> string option \<Rightarrow> string \<Rightarrow> error + pyval" where
  "parse_file_input (MFileInput (FStr s)) tg attach_flag name uuid = Inr (PStr s)"
| "parse_file_input (MFileInput (FBytes b)) tg attach_flag name uuid =
     Inr (PInputFile (InputFile (Bytes b) attach_flag name uuid))"
| "parse_file_input (MFileInput (FFile h)) tg attach_flag name uuid =
     Inr (PInputFile (InputFile (Handle h) attach_flag name uuid))"
| "parse_file_input m None attach_flag name uuid = Inl TypeError"
| "parse_file_input m (Some t) attach_flag name uuid =
     (case tg_file_id m t of Some fid \<Rightarrow> Inr (PStr fid) | None \<Rightarrow> Inl TypeError)"

text \<open>
  Modelled from the spec: \<open>MessageEntity.to_dict\<close> is not among the sources. All three
  fields of an entity are set, so its mapping has all three.
\<close>

definition MessageEntity_to_dict :: "message_entity \<Rightarrow> attrs" where
  "MessageEntity_to_dict e =
     [''type'' \<mapsto> PStr (entity_type e),
      ''offset'' \<mapsto> PInt (entity_offset e),
      ''length'' \<mapsto> PInt (entity_length e)]"

text \<open>
  Modelled from the spec: \<open>InputFile.to_dict\<close> is not among the sources. An input file
  serializes to the reference to its attachment key, never to its payload; a file that
  was not tagged has no reference to give.
\<close>

definition InputFile_to_dict :: "input_file \<Rightarrow> pyval" where
  "InputFile_to_dict f = (case attach f of Some k \<Rightarrow> PAttach k | None \<Rightarrow> PNone)"

text \<open>
  Modelled from the spec: \<open>TelegramObject.to_dict\<close> (telegram/base.py) is not among the
  sources. The spec's serializer: every set field is included under its name, a field
  that is unset (never assigned, or holding \<open>None\<close>) is omitted and not emitted as null;
  an attribute that is itself a serializable object is included in its serialized form.
\<close>

fun to_json :: "pyval \<Rightarrow> pyval" where
  "to_json (PInputFile f) = InputFile_to_dict f"
| "to_json (PEntity e) = PDict (MessageEntity_to_dict e)"
| "to_json v = v"

definition TelegramObject_to_dict :: "attrs \<Rightarrow> attrs" where
  "TelegramObject_to_dict self =
     (\<lambda>key. case self key of
               None \<Rightarrow> None
             | Some PNone \<Rightarrow> None
             | Some v \<Rightarrow> Some (to_json v))"

subsection \<open>Truthiness and conditional assignment\<close>

text \<open>
  The constructors guard most assignments by \<open>if x:\<close>. Python's truth value of an optional
  argument: \<open>None\<close>, \<open>0\<close>, \<open>False\<close>, the empty string, the empty byte string and the empty
  list are false; a file object is true.
\<close>

fun truthy_file :: "file_input \<Rightarrow> bool" where
  "truthy_file (FStr s) = (s \<noteq> [])"
| "truthy_file (FBytes b) = (b \<noteq> [])"
| "truthy_file (FFile h) = True"

text \<open>\<open>if x: self.key = x\<close> for a string, an integer and a boolean argument.\<close>

fun assign_str :: "string \<Rightarrow> string option \<Rightarrow> attrs \<Rightarrow> attrs" where
  "assign_str key None self = self"
| "assign_str key (Some s) self = (if s \<noteq> [] then self(key \<mapsto> PStr s) else self)"

fun assign_int :: "string \<Rightarrow> int option \<Rightarrow> attrs \<Rightarrow> attrs" where
  "assign_int key None self = self"
| "assign_int key (Some n) self = (if n \<noteq> 0 then self(key \<mapsto> PInt n) else self)"

fun assign_bool :: "string \<Rightarrow> bool option \<Rightarrow> attrs \<Rightarrow> attrs" where
  "assign_bool key None self = self"
| "assign_bool key (Some b) self = (if b then self(key \<mapsto> PBool b) else self)"

text \<open>The value of an optional argument that is assigned without a test.\<close>

fun str_val :: "string option \<Rightarrow> pyval" where
  "str_val None = PNone"
| "str_val (Some s) = PStr s"

fun bool_val :: "bool option \<Rightarrow> pyval" where
  "bool_val None = PNone"
| "bool_val (Some b) = PBool b"

fun entities_val :: "message_entity list option \<Rightarrow> pyval" where
  "entities_val None = PNone"
| "entities_val (Some es) = PList (map PEntity es)"

text \<open>
  \<open>if thumb: self.thumb = parse_file_input(thumb, attach=True)\<close>, the same statement in
  four constructors.
\<close>

fun assign_thumb :: "file_input option \<Rightarrow> string \<Rightarrow> attrs \<Rightarrow> error + attrs" where
  "assign_thumb None uuid self = Inr self"
| "assign_thumb (Some t) uuid self =
     (if truthy_file t
      then (case parse_file_input (MFileInput t) None True None uuid of
              Inl e \<Rightarrow> Inl e
            | Inr v \<Rightarrow> Inr (self(''thumb'' \<mapsto> v)))
      else Inr self)"

text \<open>
  \<open>self.media = parse_file_input(media, tg_type, attach=True, filename=filename)\<close>.
\<close>

definition assign_media ::
  "media_input \<Rightarrow> tg_type option \<Rightarrow> string option \<Rightarrow> string \<Rightarrow> attrs \<Rightarrow> error + attrs" where
  "assign_media media tg name uuid self =
     (case parse_file_input media tg True name uuid of
        Inl e \<Rightarrow> Inl e
      | Inr v \<Rightarrow> Inr (self(''media'' \<mapsto> v)))"

subsection \<open>The five constructors\<close>

text \<open>
  Each constructor takes the arguments of its \<open>__init__\<close> in the order of the source, then
  the identifiers generated for the media and the thumbnail attachment. It returns the
  attribute dictionary of the new object, or the error raised.
\<close>

definition InputMediaAnimation ::
  "media_input \<Rightarrow> file_input option \<Rightarrow> string option \<Rightarrow> parse_mode_arg \<Rightarrow> int option \<Rightarrow>
   int option \<Rightarrow>
   int option \<Rightarrow> message_entity list option \<Rightarrow> string option \<Rightarrow> string \<Rightarrow> string \<Rightarrow> error + attrs" where
  "InputMediaAnimation media thumb caption parse_mode width height duration caption_entities
     name media_uuid thumb_uuid =
   (case (case media of
            MAnimation a \<Rightarrow>
              Inr [''type'' \<mapsto> PStr ''animation'',
                   ''media'' \<mapsto> PStr (animation_file_id a),
                   ''width'' \<mapsto> PInt (animation_width a),
                   ''height'' \<mapsto> PInt (animation_height a),
                   ''duration'' \<mapsto> PInt (animation_duration a)]
          | _ \<Rightarrow> assign_media media None name media_uuid [''type'' \<mapsto> PStr ''animation''])
    of
      Inl e \<Rightarrow> Inl e
    | Inr self1 \<Rightarrow>
       (case assign_thumb thumb thumb_uuid self1 of
          Inl e \<Rightarrow> Inl e
        | Inr self2 \<Rightarrow>
            Inr (assign_int ''duration'' duration
                (assign_int ''height'' height
                (assign_int ''width'' width
                  ((assign_str ''caption'' caption self2)
                     (''parse_mode'' \<mapsto> parse_mode_val parse_mode,
                      ''caption_entities'' \<mapsto> entities_val caption_entities)))))))"

definition InputMediaPhoto ::
  "media_input \<Rightarrow> string option \<Rightarrow> parse_mode_arg \<Rightarrow> message_entity list option \<Rightarrow>
   string option \<Rightarrow>
   string \<Rightarrow> error + attrs" where
  "InputMediaPhoto media caption parse_mode caption_entities name media_uuid =
   (case assign_media media (Some TPhotoSize) name media_uuid [''type'' \<mapsto> PStr ''photo''] of
      Inl e \<Rightarrow> Inl e
    | Inr self1 \<Rightarrow>
        Inr ((assign_str ''caption'' caption self1)
               (''parse_mode'' \<mapsto> parse_mode_val parse_mode,
                ''caption_entities'' \<mapsto> entities_val caption_entities)))"

definition InputMediaVideo ::
  "media_input \<Rightarrow> string option \<Rightarrow> int option \<Rightarrow> int option \<Rightarrow> int option \<Rightarrow> bool option \<Rightarrow>
   parse_mode_arg \<Rightarrow> file_input option \<Rightarrow> message_entity list option \<Rightarrow> string option \<Rightarrow> string \<Rightarrow>
   string \<Rightarrow>
   error + attrs" where
  "InputMediaVideo media caption width height duration supports_streaming parse_mode thumb
     caption_entities name media_uuid thumb_uuid =
   (case (case media of
            MVideo v \<Rightarrow>
              Inr [''type'' \<mapsto> PStr ''video'',
                   ''media'' \<mapsto> PStr (video_file_id v),
                   ''width'' \<mapsto> PInt (video_width v),
                   ''height'' \<mapsto> PInt (video_height v),
                   ''duration'' \<mapsto> PInt (video_duration v)]
          | _ \<Rightarrow> assign_media media None name media_uuid [''type'' \<mapsto> PStr ''video''])
    of
      Inl e \<Rightarrow> Inl e
    | Inr self1 \<Rightarrow>
       (case assign_thumb thumb thumb_uuid self1 of
          Inl e \<Rightarrow> Inl e
        | Inr self2 \<Rightarrow>
            Inr (assign_bool ''supports_streaming'' supports_streaming
                (assign_int ''duration'' duration
                (assign_int ''height'' height
                (assign_int ''width'' width
                  ((assign_str ''caption'' caption self2)
                     (''parse_mode'' \<mapsto> parse_mode_val parse_mode,
                      ''caption_entities'' \<mapsto> entities_val caption_entities))))))))"

definition InputMediaAudio ::
  "media_input \<Rightarrow> file_input option \<Rightarrow> string option \<Rightarrow> parse_mode_arg \<Rightarrow> int option \<Rightarrow>
   string option \<Rightarrow>
   string option \<Rightarrow> message_entity list option \<Rightarrow> string option \<Rightarrow> string \<Rightarrow> string \<Rightarrow> error + attrs" where
  "InputMediaAudio media thumb caption parse_mode duration performer title caption_entities
     name media_uuid thumb_uuid =
   (case (case media of
            MAudio a \<Rightarrow>
              Inr [''type'' \<mapsto> PStr ''audio'',
                   ''media'' \<mapsto> PStr (audio_file_id a),
                   ''duration'' \<mapsto> PInt (audio_duration a),
                   ''performer'' \<mapsto> str_val (audio_performer a),
                   ''title'' \<mapsto> str_val (audio_title a)]
          | _ \<Rightarrow> assign_media media None name media_uuid [''type'' \<mapsto> PStr ''audio''])
    of
      Inl e \<Rightarrow> Inl e
    | Inr self1 \<Rightarrow>
       (case assign_thumb thumb thumb_uuid self1 of
          Inl e \<Rightarrow> Inl e
        | Inr self2 \<Rightarrow>
            Inr (assign_str ''title'' title
                (assign_str ''performer'' performer
                (assign_int ''duration'' duration
                  ((assign_str ''caption'' caption self2)
                     (''parse_mode'' \<mapsto> parse_mode_val parse_mode,
                      ''caption_entities'' \<mapsto> entities_val caption_entities)))))))"

definition InputMediaDocument ::
  "media_input \<Rightarrow> file_input option \<Rightarrow> string option \<Rightarrow> parse_mode_arg \<Rightarrow> bool option \<Rightarrow>
   message_entity list option \<Rightarrow> string option \<Rightarrow> string \<Rightarrow> string \<Rightarrow> error + attrs" where
  "InputMediaDocument media thumb caption parse_mode disable_content_type_detection
     caption_entities name media_uuid thumb_uuid =
   (case assign_media media (Some TDocument) name media_uuid [''type'' \<mapsto> PStr ''document''] of
      Inl e \<Rightarrow> Inl e
    | Inr self1 \<Rightarrow>
       (case assign_thumb thumb thumb_uuid self1 of
          Inl e \<Rightarrow> Inl e
        | Inr self2 \<Rightarrow>
            Inr ((assign_str ''caption'' caption self2)
                   (''parse_mode'' \<mapsto> parse_mode_val parse_mode,
                    ''caption_entities'' \<mapsto> entities_val caption_entities,
                    ''disable_content_type_detection'' \<mapsto>
                       bool_val disable_content_type_detection))))"

subsection \<open>Serialization\<close>

text \<open>
  \<open>ce.to_dict() for ce in self.caption_entities\<close>: an element that is not an entity has no
  \<open>to_dict\<close>.
\<close>

fun entities_to_dicts :: "pyval list \<Rightarrow> error + pyval list" where
  "entities_to_dicts [] = Inr []"
| "entities_to_dicts (PEntity e # vs) =
     (case entities_to_dicts vs of
        Inl err \<Rightarrow> Inl err
      | Inr ds \<Rightarrow> Inr (PDict (MessageEntity_to_dict e) # ds))"
| "entities_to_dicts (v # vs) = Inl AttributeError"

text \<open>
  \<open>self.caption_entities\<close>: the instance attribute, or the class attribute \<open>None\<close> of
  \<open>InputMedia\<close> when the instance has none.
\<close>

definition get_caption_entities :: "attrs \<Rightarrow> pyval" where
  "get_caption_entities self =
     (case self ''caption_entities'' of None \<Rightarrow> PNone | Some v \<Rightarrow> v)"

text \<open>
  \<open>InputMedia.to_dict\<close>. The result is the returned mapping together with the object
  after the call, so that an effect on the object would show. The field
  \<open>caption_entities\<close> is declared as a list or tuple of entities or \<open>None\<close>; a value
  of another type is rejected by the model.
\<close>

definition to_dict :: "attrs \<Rightarrow> error + (attrs \<times> attrs)" where
  "to_dict self =
     (let data = TelegramObject_to_dict self in
      case get_caption_entities self of
        PNone \<Rightarrow> Inr (data, self)
      | PList vs \<Rightarrow>
          (if vs \<noteq> []
           then (case entities_to_dicts vs of
                   Inl e \<Rightarrow> Inl e
                 | Inr ds \<Rightarrow> Inr (data(''caption_entities'' \<mapsto> PList ds), self))
           else Inr (data, self))
      | _ \<Rightarrow> Inl TypeError)"

subsection \<open>Serialization as a procedure on a store\<close>

text \<open>
  \<open>to_dict\<close> above gives the mapping that a call returns. To state what a call leaves
  unchanged, the same lines 48 to 56 are modelled once more as a procedure on a store, in
  which an effect on the object can be written down.

  The store holds the dictionaries of the running program by address: the attribute
  dictionary of an object and every mapping that a \<open>to_dict\<close> builds are entries of the
  store, and an address is an index into it. An assignment \<open>data[key] = v\<close> updates the
  store at the address of \<open>data\<close>; were \<open>data\<close> the object's own dictionary, the
  assignment would change the object.
\<close>

type_synonym store = "attrs list"

text \<open>
  The two methods that \<open>InputMedia.to_dict\<close> calls are not among the sources and are
  parameters of the procedure: \<open>super().to_dict()\<close> takes the address of the object and
  returns the address of a mapping, \<open>ce.to_dict()\<close> takes an element of the list and
  returns its mapping or raises; both return the store they leave behind.
\<close>

type_synonym super_call = "nat \<Rightarrow> store \<Rightarrow> nat \<times> store"

type_synonym entity_call = "pyval \<Rightarrow> store \<Rightarrow> (error + pyval) \<times> store"

text \<open>\<open>[ce.to_dict() for ce in self.caption_entities]\<close>, the calls made in order.\<close>

fun comprehension :: "entity_call \<Rightarrow> pyval list \<Rightarrow> store \<Rightarrow> (error + pyval list) \<times> store" where
  "comprehension ce_to_dict [] st = (Inr [], st)"
| "comprehension ce_to_dict (ce # ces) st =
     (case ce_to_dict ce st of
        (Inl e, st1) \<Rightarrow> (Inl e, st1)
      | (Inr d, st1) \<Rightarrow>
          (case comprehension ce_to_dict ces st1 of
             (Inl e, st2) \<Rightarrow> (Inl e, st2)
           | (Inr ds, st2) \<Rightarrow> (Inr (d # ds), st2)))"

text \<open>
  \<open>InputMedia.to_dict\<close>, lines 48 to 56, for the object at the address \<open>self\<close> (an index of
  the store, as the address of a live object is). The one write of the method is the
  assignment of line 52, to the mapping at the address \<open>data\<close>.
\<close>

definition InputMedia_to_dict ::
  "super_call \<Rightarrow> entity_call \<Rightarrow> nat \<Rightarrow> store \<Rightarrow> (error + nat) \<times> store" where
  "InputMedia_to_dict super_to_dict ce_to_dict self st =
     (case super_to_dict self st of
        (data, st1) \<Rightarrow>
          (case get_caption_entities (st1 ! self) of
             PNone \<Rightarrow> (Inr data, st1)
           | PList ces \<Rightarrow>
               (if ces \<noteq> []
                then (case comprehension ce_to_dict ces st1 of
                        (Inl e, st2) \<Rightarrow> (Inl e, st2)
                      | (Inr ds, st2) \<Rightarrow>
                          (Inr data,
                           st2[data := (st2 ! data)(''caption_entities'' \<mapsto> PList ds)]))
                else (Inr data, st1))
           | _ \<Rightarrow> (Inl TypeError, st1)))"

text \<open>
  Modelled from the spec: \<open>TelegramObject.to_dict\<close> and \<open>MessageEntity.to_dict\<close> as calls on
  the store. Each builds a new mapping: the first puts it into the store at a new address,
  the second returns it as a value; neither writes to an existing entry.
\<close>

definition TelegramObject_to_dict_call :: super_call where
  "TelegramObject_to_dict_call self st = (length st, st @ [TelegramObject_to_dict (st ! self)])"

definition MessageEntity_to_dict_call :: entity_call where
  "MessageEntity_to_dict_call ce st =
     (case ce of
        PEntity e \<Rightarrow> (Inr (PDict (MessageEntity_to_dict e)), st)
      | _ \<Rightarrow> (Inl AttributeError, st))"

subsection \<open>Notions used to state the properties\<close>

text \<open>
  What a call on the store returned: the mapping found at the returned address in the
  store that the call leaves, or the error raised.
\<close>

fun returned :: "(error + nat) \<times> store \<Rightarrow> error + attrs" where
  "returned (Inl e, st) = Inl e"
| "returned (Inr data, st) = Inr (st ! data)"

text \<open>
  The attribute \<open>key\<close> of the object a constructor call returned: \<open>None\<close> when the call
  raised or the object has no such attribute.
\<close>

definition attr_of :: "error + attrs \<Rightarrow> string \<Rightarrow> pyval option" where
  "attr_of res key = (case res of Inl e \<Rightarrow> None | Inr self \<Rightarrow> self key)"

text \<open>\<open>to_dict\<close> called on the result of a constructor call, immediately after it.\<close>

definition serialized :: "error + attrs \<Rightarrow> error + attrs" where
  "serialized res =
     (case res of
        Inl e \<Rightarrow> Inl e
      | Inr self \<Rightarrow> (case to_dict self of Inl e \<Rightarrow> Inl e | Inr (data, self') \<Rightarrow> Inr data))"

text \<open>The entry \<open>key\<close> of that mapping, \<open>None\<close> when the mapping has no such key.\<close>

definition entry_of :: "error + attrs \<Rightarrow> string \<Rightarrow> pyval option" where
  "entry_of res key = attr_of (serialized res) key"

text \<open>The objects of the five kinds: whatever one of the five constructors returns.\<close>

inductive constructed :: "attrs \<Rightarrow> bool" where
  animation:
    "InputMediaAnimation media thumb caption parse_mode width height duration caption_entities
       name media_uuid thumb_uuid = Inr self \<Longrightarrow> constructed self"
| photo:
    "InputMediaPhoto media caption parse_mode caption_entities name media_uuid = Inr self
       \<Longrightarrow> constructed self"
| video:
    "InputMediaVideo media caption width height duration supports_streaming parse_mode thumb
       caption_entities name media_uuid thumb_uuid = Inr self \<Longrightarrow> constructed self"
| audio:
    "InputMediaAudio media thumb caption parse_mode duration performer title caption_entities
       name media_uuid thumb_uuid = Inr self \<Longrightarrow> constructed self"
| document:
    "InputMediaDocument media thumb caption parse_mode disable_content_type_detection
       caption_entities name media_uuid thumb_uuid = Inr self \<Longrightarrow> constructed self"

text \<open>The \<open>FileInput\<close> that carries a byte payload or a file handle.\<close>

fun file_input_of :: "payload \<Rightarrow> file_input" where
  "file_input_of (Bytes b) = FBytes b"
| "file_input_of (Handle h) = FFile h"


section \<open>Properties\<close>

subsection \<open>Auxiliary facts\<close>

lemmas ctor_defs = InputMediaAnimation_def InputMediaPhoto_def InputMediaVideo_def
  InputMediaAudio_def InputMediaDocument_def assign_media_def

lemma assign_str_other: "k \<noteq> key \<Longrightarrow> assign_str key x self k = self k"
  by (cases x) auto

lemma assign_int_other: "k \<noteq> key \<Longrightarrow> assign_int key x self k = self k"
  by (cases x) auto

lemma assign_bool_other: "k \<noteq> key \<Longrightarrow> assign_bool key x self k = self k"
  by (cases x) auto

lemmas assign_other = assign_str_other assign_int_other assign_bool_other

lemma thumb_cases:
  obtains "thumb = None" | s where "thumb = Some (FStr s)" | b where "thumb = Some (FBytes b)"
    | h where "thumb = Some (FFile h)"
proof (cases thumb)
  case None
  then show ?thesis by (rule that(1))
next
  case (Some x)
  then show ?thesis by (cases x) (auto intro: that)
qed

lemma entities_to_dicts_map:
  "entities_to_dicts (map PEntity es) = Inr (map (\<lambda>e. PDict (MessageEntity_to_dict e)) es)"
  by (induction es) auto

text \<open>Every constructor assigns \<open>caption_entities\<close>: \<open>None\<close> or a list of entities.\<close>

lemma constructed_caption_entities:
  "constructed self \<Longrightarrow> \<exists>ce. self ''caption_entities'' = Some (entities_val ce)"
  by (induction rule: constructed.induct)
    (auto simp: ctor_defs assign_other split: sum.splits)

text \<open>What \<open>to_dict\<close> returns for an object whose \<open>caption_entities\<close> is well typed.\<close>

lemma to_dict_entities_val:
  assumes "self ''caption_entities'' = Some (entities_val ce)"
  shows "to_dict self =
    Inr ((\<lambda>k. if k = ''caption_entities''
              then map_option (\<lambda>es. PList (map (\<lambda>e. PDict (MessageEntity_to_dict e)) es)) ce
              else TelegramObject_to_dict self k), self)"
proof (cases ce)
  case None
  with assms show ?thesis
    by (auto simp: to_dict_def get_caption_entities_def TelegramObject_to_dict_def)
next
  case (Some es)
  show ?thesis
  proof (cases "es = []")
    case True
    with assms Some show ?thesis
      by (auto simp: to_dict_def get_caption_entities_def TelegramObject_to_dict_def fun_eq_iff)
  next
    case False
    with assms Some show ?thesis
      by (auto simp: to_dict_def get_caption_entities_def TelegramObject_to_dict_def
        entities_to_dicts_map fun_eq_iff)
  qed
qed

lemma entry_of_constructed:
  assumes "\<And>self. res = Inr self \<Longrightarrow> constructed self" and "k \<noteq> ''caption_entities''"
  shows "entry_of res k =
    (case attr_of res k of None \<Rightarrow> None | Some v \<Rightarrow> if v = PNone then None else Some (to_json v))"
proof (cases res)
  case (Inl e)
  then show ?thesis by (simp add: entry_of_def serialized_def attr_of_def)
next
  case (Inr self)
  with assms(1) have "constructed self" by simp
  then obtain ce where "self ''caption_entities'' = Some (entities_val ce)"
    using constructed_caption_entities by blast
  from to_dict_entities_val [of self ce] this Inr assms(2) show ?thesis
    by (auto simp: entry_of_def serialized_def attr_of_def TelegramObject_to_dict_def
        split: option.splits pyval.splits)
qed

lemma entry_of_animation:
  "k \<noteq> ''caption_entities'' \<Longrightarrow>
   entry_of (InputMediaAnimation m t c p w h d ce n mu tu) k =
    (case attr_of (InputMediaAnimation m t c p w h d ce n mu tu) k of
       None \<Rightarrow> None | Some v \<Rightarrow> if v = PNone then None else Some (to_json v))"
  by (rule entry_of_constructed) (auto intro: constructed.animation)

lemma entry_of_photo:
  "k \<noteq> ''caption_entities'' \<Longrightarrow>
   entry_of (InputMediaPhoto m c p ce n mu) k =
    (case attr_of (InputMediaPhoto m c p ce n mu) k of
       None \<Rightarrow> None | Some v \<Rightarrow> if v = PNone then None else Some (to_json v))"
  by (rule entry_of_constructed) (auto intro: constructed.photo)

lemma entry_of_video:
  "k \<noteq> ''caption_entities'' \<Longrightarrow>
   entry_of (InputMediaVideo m c w h d s p t ce n mu tu) k =
    (case attr_of (InputMediaVideo m c w h d s p t ce n mu tu) k of
       None \<Rightarrow> None | Some v \<Rightarrow> if v = PNone then None else Some (to_json v))"
  by (rule entry_of_constructed) (auto intro: constructed.video)

lemma entry_of_audio:
  "k \<noteq> ''caption_entities'' \<Longrightarrow>
   entry_of (InputMediaAudio m t c p d pf ti ce n mu tu) k =
    (case attr_of (InputMediaAudio m t c p d pf ti ce n mu tu) k of
       None \<Rightarrow> None | Some v \<Rightarrow> if v = PNone then None else Some (to_json v))"
  by (rule entry_of_constructed) (auto intro: constructed.audio)

lemma entry_of_document:
  "k \<noteq> ''caption_entities'' \<Longrightarrow>
   entry_of (InputMediaDocument m t c p dc ce n mu tu) k =
    (case attr_of (InputMediaDocument m t c p dc ce n mu tu) k of
       None \<Rightarrow> None | Some v \<Rightarrow> if v = PNone then None else Some (to_json v))"
  by (rule entry_of_constructed) (auto intro: constructed.document)

lemmas entry_of_ctor = entry_of_animation entry_of_photo entry_of_video entry_of_audio
  entry_of_document




text \<open>
  C1. Built from a metadata object, the record's width, height and duration (for an audio:
  duration, performer and title) are the object's values unless the caller supplies an
  override, which takes precedence: so the class docstrings say (``unless otherwise
  specified with the optional arguments''). The facts above show where the code departs
  from it: the overrides are guarded by \<open>if width:\<close> and the like, so an override that is
  supplied but is zero (or the empty string) is dropped.
  \<open>InputMediaAnimation(Animation(width=100, ...), width=0)\<close> keeps the width 100, where
  the specified width is 0.
\<close>

theorem zero_override_is_ignored:
  "attr_of (InputMediaAnimation
      (MAnimation \<lparr>animation_file_id = ''gif'', animation_width = 100, animation_height = 50,
         animation_duration = 3\<rparr>)
      None None DEFAULT_NONE (Some 0) None None None None ''m1'' ''t1'') ''width''
     = Some (PInt 100) \<and>
   attr_of (InputMediaAnimation
      (MAnimation \<lparr>animation_file_id = ''gif'', animation_width = 100, animation_height = 50,
         animation_duration = 3\<rparr>)
      None None DEFAULT_NONE (Some 0) None None None None ''m1'' ''t1'') ''width''
     \<noteq> Some (PInt 0)"
  by (simp add: InputMediaAnimation_def attr_of_def)

text \<open>An argument that is zero, empty or \<open>False\<close> assigns nothing.\<close>

lemma assign_falsy:
  "assign_int key (Some 0) self = assign_int key None self"
  "assign_str key (Some []) self = assign_str key None self"
  "assign_bool key (Some False) self = assign_bool key None self"
  by simp_all














text \<open>
  C4. For a record of any of the five kinds whose \<open>caption_entities\<close> field is a
  non-empty list, the list holds entities, \<open>to_dict\<close> returns, and the
  \<open>caption_entities\<close> entry of the mapping is the list of the entities' own mappings:
  as long as the field, the i-th mapping being the serialization of the i-th entity.
\<close>

theorem caption_entities_serialized_in_order:
  assumes "constructed self"
    and "self ''caption_entities'' = Some (PList vs)"
    and "vs \<noteq> []"
  shows "\<exists>es ds data.
           vs = map PEntity es \<and>
           to_dict self = Inr (data, self) \<and>
           data ''caption_entities'' = Some (PList ds) \<and>
           ds = map (\<lambda>e. PDict (MessageEntity_to_dict e)) es \<and>
           length ds = length vs \<and>
           (\<forall>i < length vs. ds ! i = PDict (MessageEntity_to_dict (es ! i)))"
proof -
  from assms(1) obtain ce where ce: "self ''caption_entities'' = Some (entities_val ce)"
    using constructed_caption_entities by blast
  with assms(2) have "entities_val ce = PList vs" by simp
  then obtain es where es: "ce = Some es" "vs = map PEntity es"
    by (cases ce) auto
  let ?ds = "map (\<lambda>e. PDict (MessageEntity_to_dict e)) es"
  from to_dict_entities_val [of self "Some es"] ce es
  have "to_dict self =
      Inr ((\<lambda>k. if k = ''caption_entities'' then Some (PList ?ds)
                 else TelegramObject_to_dict self k), self)"
    by (simp add: fun_eq_iff)
  with es show ?thesis by auto
qed

theorem caption_entities_serialized_in_order_witness:
  "entry_of
     (InputMediaPhoto (MFileInput (FStr ''id'')) (Some ''hello world'') DEFAULT_NONE
        (Some [\<lparr>entity_type = ''bold'', entity_offset = 0, entity_length = 5\<rparr>,
               \<lparr>entity_type = ''italic'', entity_offset = 6, entity_length = 5\<rparr>])
        None ''m1'')
     ''caption_entities''
   = Some (PList
       [PDict (MessageEntity_to_dict
                 \<lparr>entity_type = ''bold'', entity_offset = 0, entity_length = 5\<rparr>),
        PDict (MessageEntity_to_dict
                 \<lparr>entity_type = ''italic'', entity_offset = 6, entity_length = 5\<rparr>)])"
proof -
  let ?e1 = "\<lparr>entity_type = ''bold'', entity_offset = 0, entity_length = 5\<rparr>"
  let ?e2 = "\<lparr>entity_type = ''italic'', entity_offset = 6, entity_length = 5\<rparr>"
  let ?call = "InputMediaPhoto (MFileInput (FStr ''id'')) (Some ''hello world'') DEFAULT_NONE
        (Some [?e1, ?e2]) None ''m1''"
  obtain self where call: "?call = Inr self"
    by (simp add: ctor_defs)
  then have built: "constructed self" by (rule constructed.photo)
  from call have field: "self ''caption_entities'' = Some (PList [PEntity ?e1, PEntity ?e2])"
    by (auto simp: ctor_defs)
  from caption_entities_serialized_in_order [OF built field list.distinct(2)]
  obtain es ds data where
    "[PEntity ?e1, PEntity ?e2] = map PEntity es"
    "to_dict self = Inr (data, self)"
    "data ''caption_entities'' = Some (PList ds)"
    "ds = map (\<lambda>e. PDict (MessageEntity_to_dict e)) es"
    by (elim exE conjE) (rule that; assumption)
  moreover from this(1) have "es = [?e1, ?e2]"
    by (auto simp: map_eq_Cons_conv)
  ultimately show ?thesis
    using call by (simp add: entry_of_def serialized_def attr_of_def)
qed









lemma assign_thumb_tagged:
  assumes "assign_thumb t uuid self = Inr self'"
    and "\<And>k f. self k = Some (PInputFile f) \<Longrightarrow> attach f \<noteq> None"
    and "self' k = Some (PInputFile f)"
  shows "attach f \<noteq> None"
proof (cases t rule: thumb_cases)
  case 1
  with assms show ?thesis by auto
next
  case (2 s)
  with assms show ?thesis by (auto split: if_splits)
next
  case (3 b)
  with assms show ?thesis by (auto simp: InputFile_def split: if_splits)
next
  case (4 h)
  with assms show ?thesis by (auto simp: InputFile_def split: if_splits)
qed

























text \<open>The media attribute of a record built from a \<open>FileInput\<close>.\<close>

lemma media_attr_animation:
  "attr_of (InputMediaAnimation (MFileInput f) thumb caption parse_mode width height duration
              caption_entities name media_uuid thumb_uuid) ''media'' =
     (case f of
        FStr s \<Rightarrow> Some (PStr s)
      | FBytes b \<Rightarrow> Some (PInputFile (InputFile (Bytes b) True name media_uuid))
      | FFile h \<Rightarrow> Some (PInputFile (InputFile (Handle h) True name media_uuid)))"
  by (cases thumb rule: thumb_cases; cases f;
      simp add: ctor_defs attr_of_def assign_other)

lemma media_attr_photo:
  "attr_of (InputMediaPhoto (MFileInput f) caption parse_mode caption_entities name media_uuid) ''media'' =
     (case f of
        FStr s \<Rightarrow> Some (PStr s)
      | FBytes b \<Rightarrow> Some (PInputFile (InputFile (Bytes b) True name media_uuid))
      | FFile h \<Rightarrow> Some (PInputFile (InputFile (Handle h) True name media_uuid)))"
  by (cases f; simp add: ctor_defs attr_of_def assign_other)

lemma media_attr_video:
  "attr_of (InputMediaVideo (MFileInput f) caption width height duration supports_streaming
              parse_mode thumb caption_entities name media_uuid thumb_uuid) ''media'' =
     (case f of
        FStr s \<Rightarrow> Some (PStr s)
      | FBytes b \<Rightarrow> Some (PInputFile (InputFile (Bytes b) True name media_uuid))
      | FFile h \<Rightarrow> Some (PInputFile (InputFile (Handle h) True name media_uuid)))"
  by (cases thumb rule: thumb_cases; cases f;
      simp add: ctor_defs attr_of_def assign_other)

lemma media_attr_audio:
  "attr_of (InputMediaAudio (MFileInput f) thumb caption parse_mode duration performer title
              caption_entities name media_uuid thumb_uuid) ''media'' =
     (case f of
        FStr s \<Rightarrow> Some (PStr s)
      | FBytes b \<Rightarrow> Some (PInputFile (InputFile (Bytes b) True name media_uuid))
      | FFile h \<Rightarrow> Some (PInputFile (InputFile (Handle h) True name media_uuid)))"
  by (cases thumb rule: thumb_cases; cases f;
      simp add: ctor_defs attr_of_def assign_other)

lemma media_attr_document:
  "attr_of (InputMediaDocument (MFileInput f) thumb caption parse_mode
              disable_content_type_detection caption_entities name media_uuid thumb_uuid) ''media'' =
     (case f of
        FStr s \<Rightarrow> Some (PStr s)
      | FBytes b \<Rightarrow> Some (PInputFile (InputFile (Bytes b) True name media_uuid))
      | FFile h \<Rightarrow> Some (PInputFile (InputFile (Handle h) True name media_uuid)))"
  by (cases thumb rule: thumb_cases; cases f;
      simp add: ctor_defs attr_of_def assign_other)

lemmas media_attr = media_attr_animation media_attr_photo media_attr_video media_attr_audio media_attr_document

text \<open>The discriminant of a record.\<close>

lemma type_attr_animation:
  "InputMediaAnimation media thumb caption parse_mode width height duration
              caption_entities name media_uuid thumb_uuid = Inr self \<Longrightarrow>
   attr_of (InputMediaAnimation media thumb caption parse_mode width height duration
              caption_entities name media_uuid thumb_uuid) ''type'' = Some (PStr ''animation'')"
  by (cases thumb rule: thumb_cases)
    (auto simp: ctor_defs attr_of_def assign_other
      split: sum.splits media_input.splits if_splits)

lemma type_attr_photo:
  "InputMediaPhoto media caption parse_mode caption_entities name media_uuid = Inr self \<Longrightarrow>
   attr_of (InputMediaPhoto media caption parse_mode caption_entities name media_uuid) ''type'' = Some (PStr ''photo'')"
  by (auto simp: ctor_defs attr_of_def assign_other split: sum.splits)

lemma type_attr_video:
  "InputMediaVideo media caption width height duration supports_streaming
              parse_mode thumb caption_entities name media_uuid thumb_uuid = Inr self \<Longrightarrow>
   attr_of (InputMediaVideo media caption width height duration supports_streaming
              parse_mode thumb caption_entities name media_uuid thumb_uuid) ''type'' = Some (PStr ''video'')"
  by (cases thumb rule: thumb_cases)
    (auto simp: ctor_defs attr_of_def assign_other
      split: sum.splits media_input.splits if_splits)

lemma type_attr_audio:
  "InputMediaAudio media thumb caption parse_mode duration performer title
              caption_entities name media_uuid thumb_uuid = Inr self \<Longrightarrow>
   attr_of (InputMediaAudio media thumb caption parse_mode duration performer title
              caption_entities name media_uuid thumb_uuid) ''type'' = Some (PStr ''audio'')"
  by (cases thumb rule: thumb_cases)
    (auto simp: ctor_defs attr_of_def assign_other
      split: sum.splits media_input.splits if_splits)

lemma type_attr_document:
  "InputMediaDocument media thumb caption parse_mode
              disable_content_type_detection caption_entities name media_uuid thumb_uuid = Inr self \<Longrightarrow>
   attr_of (InputMediaDocument media thumb caption parse_mode
              disable_content_type_detection caption_entities name media_uuid thumb_uuid) ''type'' = Some (PStr ''document'')"
  by (cases thumb rule: thumb_cases)
    (auto simp: ctor_defs attr_of_def assign_other
      split: sum.splits media_input.splits if_splits)

lemmas type_attr = type_attr_animation type_attr_photo type_attr_video type_attr_audio type_attr_document

lemma type_of_animation:
  "(\<exists>self. InputMediaAnimation media thumb caption parse_mode width height duration
              caption_entities name media_uuid thumb_uuid = Inr self) \<longrightarrow>
     attr_of (InputMediaAnimation media thumb caption parse_mode width height duration
              caption_entities name media_uuid thumb_uuid) ''type'' = Some (PStr ''animation'') \<and>
     entry_of (InputMediaAnimation media thumb caption parse_mode width height duration
              caption_entities name media_uuid thumb_uuid) ''type'' = Some (PStr ''animation'')"
proof
  assume "\<exists>self. InputMediaAnimation media thumb caption parse_mode width height duration
              caption_entities name media_uuid thumb_uuid = Inr self"
  then obtain self where "InputMediaAnimation media thumb caption parse_mode width height duration
              caption_entities name media_uuid thumb_uuid = Inr self" ..
  then have "attr_of (InputMediaAnimation media thumb caption parse_mode width height duration
              caption_entities name media_uuid thumb_uuid) ''type'' = Some (PStr ''animation'')"
    by (rule type_attr_animation)
  then show "attr_of (InputMediaAnimation media thumb caption parse_mode width height duration
              caption_entities name media_uuid thumb_uuid) ''type'' = Some (PStr ''animation'') \<and>
     entry_of (InputMediaAnimation media thumb caption parse_mode width height duration
              caption_entities name media_uuid thumb_uuid) ''type'' = Some (PStr ''animation'')"
    by (simp add: entry_of_animation)
qed

lemma type_of_photo:
  "(\<exists>self. InputMediaPhoto media caption parse_mode caption_entities name media_uuid = Inr self) \<longrightarrow>
     attr_of (InputMediaPhoto media caption parse_mode caption_entities name media_uuid) ''type'' = Some (PStr ''photo'') \<and>
     entry_of (InputMediaPhoto media caption parse_mode caption_entities name media_uuid) ''type'' = Some (PStr ''photo'')"
proof
  assume "\<exists>self. InputMediaPhoto media caption parse_mode caption_entities name media_uuid = Inr self"
  then obtain self where "InputMediaPhoto media caption parse_mode caption_entities name media_uuid = Inr self" ..
  then have "attr_of (InputMediaPhoto media caption parse_mode caption_entities name media_uuid) ''type'' = Some (PStr ''photo'')"
    by (rule type_attr_photo)
  then show "attr_of (InputMediaPhoto media caption parse_mode caption_entities name media_uuid) ''type'' = Some (PStr ''photo'') \<and>
     entry_of (InputMediaPhoto media caption parse_mode caption_entities name media_uuid) ''type'' = Some (PStr ''photo'')"
    by (simp add: entry_of_photo)
qed

lemma type_of_video:
  "(\<exists>self. InputMediaVideo media caption width height duration supports_streaming
              parse_mode thumb caption_entities name media_uuid thumb_uuid = Inr self) \<longrightarrow>
     attr_of (InputMediaVideo media caption width height duration supports_streaming
              parse_mode thumb caption_entities name media_uuid thumb_uuid) ''type'' = Some (PStr ''video'') \<and>
     entry_of (InputMediaVideo media caption width height duration supports_streaming
              parse_mode thumb caption_entities name media_uuid thumb_uuid) ''type'' = Some (PStr ''video'')"
proof
  assume "\<exists>self. InputMediaVideo media caption width height duration supports_streaming
              parse_mode thumb caption_entities name media_uuid thumb_uuid = Inr self"
  then obtain self where "InputMediaVideo media caption width height duration supports_streaming
              parse_mode thumb caption_entities name media_uuid thumb_uuid = Inr self" ..
  then have "attr_of (InputMediaVideo media caption width height duration supports_streaming
              parse_mode thumb caption_entities name media_uuid thumb_uuid) ''type'' = Some (PStr ''video'')"
    by (rule type_attr_video)
  then show "attr_of (InputMediaVideo media caption width height duration supports_streaming
              parse_mode thumb caption_entities name media_uuid thumb_uuid) ''type'' = Some (PStr ''video'') \<and>
     entry_of (InputMediaVideo media caption width height duration supports_streaming
              parse_mode thumb caption_entities name media_uuid thumb_uuid) ''type'' = Some (PStr ''video'')"
    by (simp add: entry_of_video)
qed

lemma type_of_audio:
  "(\<exists>self. InputMediaAudio media thumb caption parse_mode duration performer title
              caption_entities name media_uuid thumb_uuid = Inr self) \<longrightarrow>
     attr_of (InputMediaAudio media thumb caption parse_mode duration performer title
              caption_entities name media_uuid thumb_uuid) ''type'' = Some (PStr ''audio'') \<and>
     entry_of (InputMediaAudio media thumb caption parse_mode duration performer title
              caption_entities name media_uuid thumb_uuid) ''type'' = Some (PStr ''audio'')"
proof
  assume "\<exists>self. InputMediaAudio media thumb caption parse_mode duration performer title
              caption_entities name media_uuid thumb_uuid = Inr self"
  then obtain self where "InputMediaAudio media thumb caption parse_mode duration performer title
              caption_entities name media_uuid thumb_uuid = Inr self" ..
  then have "attr_of (InputMediaAudio media thumb caption parse_mode duration performer title
              caption_entities name media_uuid thumb_uuid) ''type'' = Some (PStr ''audio'')"
    by (rule type_attr_audio)
  then show "attr_of (InputMediaAudio media thumb caption parse_mode duration performer title
              caption_entities name media_uuid thumb_uuid) ''type'' = Some (PStr ''audio'') \<and>
     entry_of (InputMediaAudio media thumb caption parse_mode duration performer title
              caption_entities name media_uuid thumb_uuid) ''type'' = Some (PStr ''audio'')"
    by (simp add: entry_of_audio)
qed

lemma type_of_document:
  "(\<exists>self. InputMediaDocument media thumb caption parse_mode
              disable_content_type_detection caption_entities name media_uuid thumb_uuid = Inr self) \<longrightarrow>
     attr_of (InputMediaDocument media thumb caption parse_mode
              disable_content_type_detection caption_entities name media_uuid thumb_uuid) ''type'' = Some (PStr ''document'') \<and>
     entry_of (InputMediaDocument media thumb caption parse_mode
              disable_content_type_detection caption_entities name media_uuid thumb_uuid) ''type'' = Some (PStr ''document'')"
proof
  assume "\<exists>self. InputMediaDocument media thumb caption parse_mode
              disable_content_type_detection caption_entities name media_uuid thumb_uuid = Inr self"
  then obtain self where "InputMediaDocument media thumb caption parse_mode
              disable_content_type_detection caption_entities name media_uuid thumb_uuid = Inr self" ..
  then have "attr_of (InputMediaDocument media thumb caption parse_mode
              disable_content_type_detection caption_entities name media_uuid thumb_uuid) ''type'' = Some (PStr ''document'')"
    by (rule type_attr_document)
  then show "attr_of (InputMediaDocument media thumb caption parse_mode
              disable_content_type_detection caption_entities name media_uuid thumb_uuid) ''type'' = Some (PStr ''document'') \<and>
     entry_of (InputMediaDocument media thumb caption parse_mode
              disable_content_type_detection caption_entities name media_uuid thumb_uuid) ''type'' = Some (PStr ''document'')"
    by (simp add: entry_of_document)
qed

text \<open>
  C5. A string passed as \<open>media\<close> to any of the five constructors is the record's
  \<open>media\<close> field and the \<open>media\<close> entry of the serialized mapping, unmodified.
\<close>

theorem string_media_is_unmodified:
  "(let r = InputMediaAnimation (MFileInput (FStr s)) thumb caption parse_mode width height duration
              caption_entities name media_uuid thumb_uuid in
      attr_of r ''media'' = Some (PStr s) \<and> entry_of r ''media'' = Some (PStr s)) \<and>
   (let r = InputMediaPhoto (MFileInput (FStr s)) caption parse_mode caption_entities name media_uuid in
      attr_of r ''media'' = Some (PStr s) \<and> entry_of r ''media'' = Some (PStr s)) \<and>
   (let r = InputMediaVideo (MFileInput (FStr s)) caption width height duration supports_streaming
              parse_mode thumb caption_entities name media_uuid thumb_uuid in
      attr_of r ''media'' = Some (PStr s) \<and> entry_of r ''media'' = Some (PStr s)) \<and>
   (let r = InputMediaAudio (MFileInput (FStr s)) thumb caption parse_mode duration performer title
              caption_entities name media_uuid thumb_uuid in
      attr_of r ''media'' = Some (PStr s) \<and> entry_of r ''media'' = Some (PStr s)) \<and>
   (let r = InputMediaDocument (MFileInput (FStr s)) thumb caption parse_mode
              disable_content_type_detection caption_entities name media_uuid thumb_uuid in
      attr_of r ''media'' = Some (PStr s) \<and> entry_of r ''media'' = Some (PStr s))"
  unfolding Let_def
  by (intro conjI; simp add: media_attr entry_of_ctor)

theorem string_media_is_unmodified_witness:
  "attr_of (InputMediaPhoto (MFileInput (FStr ''https://example.org/cat.png'')) None DEFAULT_NONE
      None None ''m1'') ''media'' = Some (PStr ''https://example.org/cat.png'') \<and>
   entry_of (InputMediaPhoto (MFileInput (FStr ''https://example.org/cat.png'')) None
      DEFAULT_NONE None None ''m1'') ''media'' = Some (PStr ''https://example.org/cat.png'')"
proof -
  note inst = string_media_is_unmodified
    [where s = "''https://example.org/cat.png''" and caption = None and parse_mode = DEFAULT_NONE
       and caption_entities = None and name = None and media_uuid = "''m1''"
       and thumb = None and width = None and height = None and duration = None
       and supports_streaming = None and performer = None and title = None
       and disable_content_type_detection = None and thumb_uuid = "''t1''",
     unfolded Let_def]
  from inst have
    "attr_of (InputMediaPhoto (MFileInput (FStr ''https://example.org/cat.png'')) None
        DEFAULT_NONE None None ''m1'') ''media'' = Some (PStr ''https://example.org/cat.png'')"
    by (elim conjE) assumption
  moreover from inst have
    "entry_of (InputMediaPhoto (MFileInput (FStr ''https://example.org/cat.png'')) None
        DEFAULT_NONE None None ''m1'') ''media'' = Some (PStr ''https://example.org/cat.png'')"
    by (elim conjE) assumption
  ultimately show ?thesis by simp
qed

text \<open>
  C6. A byte payload or a file handle passed as \<open>media\<close> to any of the five constructors
  makes the record's \<open>media\<close> field an input file tagged for attachment, which is not a
  string; the \<open>media\<close> entry of the serialized mapping is the reference to the attachment
  key and not the bytes.
\<close>

theorem payload_media_is_attachment:
  "(let r = InputMediaAnimation (MFileInput (file_input_of p)) thumb caption parse_mode width height duration
              caption_entities name media_uuid thumb_uuid in
      attr_of r ''media'' =
        Some (PInputFile \<lparr>input_file_data = p, attach = Some media_uuid, filename = name\<rparr>) \<and>
      attr_of r ''media'' \<noteq> Some (PStr s) \<and>
      entry_of r ''media'' = Some (PAttach media_uuid) \<and>
      entry_of r ''media'' \<noteq> Some (PBytes b)) \<and>
   (let r = InputMediaPhoto (MFileInput (file_input_of p)) caption parse_mode caption_entities name media_uuid in
      attr_of r ''media'' =
        Some (PInputFile \<lparr>input_file_data = p, attach = Some media_uuid, filename = name\<rparr>) \<and>
      attr_of r ''media'' \<noteq> Some (PStr s) \<and>
      entry_of r ''media'' = Some (PAttach media_uuid) \<and>
      entry_of r ''media'' \<noteq> Some (PBytes b)) \<and>
   (let r = InputMediaVideo (MFileInput (file_input_of p)) caption width height duration supports_streaming
              parse_mode thumb caption_entities name media_uuid thumb_uuid in
      attr_of r ''media'' =
        Some (PInputFile \<lparr>input_file_data = p, attach = Some media_uuid, filename = name\<rparr>) \<and>
      attr_of r ''media'' \<noteq> Some (PStr s) \<and>
      entry_of r ''media'' = Some (PAttach media_uuid) \<and>
      entry_of r ''media'' \<noteq> Some (PBytes b)) \<and>
   (let r = InputMediaAudio (MFileInput (file_input_of p)) thumb caption parse_mode duration performer title
              caption_entities name media_uuid thumb_uuid in
      attr_of r ''media'' =
        Some (PInputFile \<lparr>input_file_data = p, attach = Some media_uuid, filename = name\<rparr>) \<and>
      attr_of r ''media'' \<noteq> Some (PStr s) \<and>
      entry_of r ''media'' = Some (PAttach media_uuid) \<and>
      entry_of r ''media'' \<noteq> Some (PBytes b)) \<and>
   (let r = InputMediaDocument (MFileInput (file_input_of p)) thumb caption parse_mode
              disable_content_type_detection caption_entities name media_uuid thumb_uuid in
      attr_of r ''media'' =
        Some (PInputFile \<lparr>input_file_data = p, attach = Some media_uuid, filename = name\<rparr>) \<and>
      attr_of r ''media'' \<noteq> Some (PStr s) \<and>
      entry_of r ''media'' = Some (PAttach media_uuid) \<and>
      entry_of r ''media'' \<noteq> Some (PBytes b))"
  unfolding Let_def
  by (cases p; intro conjI;
      simp add: media_attr entry_of_ctor InputFile_def InputFile_to_dict_def)

theorem payload_media_is_attachment_witness:
  "attr_of (InputMediaDocument (MFileInput (FBytes [37, 80, 68, 70])) None None DEFAULT_NONE
      None None (Some ''report.pdf'') ''m1'' ''t1'') ''media'' =
     Some (PInputFile \<lparr>input_file_data = Bytes [37, 80, 68, 70], attach = Some ''m1'',
             filename = Some ''report.pdf''\<rparr>) \<and>
   entry_of (InputMediaDocument (MFileInput (FBytes [37, 80, 68, 70])) None None DEFAULT_NONE
      None None (Some ''report.pdf'') ''m1'' ''t1'') ''media'' = Some (PAttach ''m1'')"
proof -
  note inst = payload_media_is_attachment
    [where p = "Bytes [37, 80, 68, 70]" and s = "''x''" and b = "[]"
       and caption = None and parse_mode = DEFAULT_NONE
       and caption_entities = None and name = "Some ''report.pdf''" and media_uuid = "''m1''"
       and thumb = None and width = None and height = None and duration = None
       and supports_streaming = None and performer = None and title = None
       and disable_content_type_detection = None and thumb_uuid = "''t1''",
     unfolded Let_def file_input_of.simps]
  from inst have
    "attr_of (InputMediaDocument (MFileInput (FBytes [37, 80, 68, 70])) None None DEFAULT_NONE
      None None (Some ''report.pdf'') ''m1'' ''t1'') ''media'' =
     Some (PInputFile \<lparr>input_file_data = Bytes [37, 80, 68, 70], attach = Some ''m1'',
             filename = Some ''report.pdf''\<rparr>)"
    by (elim conjE) assumption
  moreover from inst have
    "entry_of (InputMediaDocument (MFileInput (FBytes [37, 80, 68, 70])) None None DEFAULT_NONE
      None None (Some ''report.pdf'') ''m1'' ''t1'') ''media'' = Some (PAttach ''m1'')"
    by (elim conjE) assumption
  ultimately show ?thesis by simp
qed

text \<open>
  C7. Whatever the arguments, a record that one of the five constructors returns holds
  its kind's discriminant in \<open>type\<close>, and its serialized mapping has it under the key
  \<open>type\<close>: \<open>animation\<close>, \<open>photo\<close>, \<open>video\<close>, \<open>audio\<close>, \<open>document\<close>.
\<close>

theorem type_discriminant_of_each_kind:
  "(let r = InputMediaAnimation media thumb caption parse_mode width height duration
              caption_entities name media_uuid thumb_uuid in
      (\<exists>self. r = Inr self) \<longrightarrow>
        attr_of r ''type'' = Some (PStr ''animation'') \<and>
        entry_of r ''type'' = Some (PStr ''animation'')) \<and>
   (let r = InputMediaPhoto media caption parse_mode caption_entities name media_uuid in
      (\<exists>self. r = Inr self) \<longrightarrow>
        attr_of r ''type'' = Some (PStr ''photo'') \<and>
        entry_of r ''type'' = Some (PStr ''photo'')) \<and>
   (let r = InputMediaVideo media caption width height duration supports_streaming
              parse_mode thumb caption_entities name media_uuid thumb_uuid in
      (\<exists>self. r = Inr self) \<longrightarrow>
        attr_of r ''type'' = Some (PStr ''video'') \<and>
        entry_of r ''type'' = Some (PStr ''video'')) \<and>
   (let r = InputMediaAudio media thumb caption parse_mode duration performer title
              caption_entities name media_uuid thumb_uuid in
      (\<exists>self. r = Inr self) \<longrightarrow>
        attr_of r ''type'' = Some (PStr ''audio'') \<and>
        entry_of r ''type'' = Some (PStr ''audio'')) \<and>
   (let r = InputMediaDocument media thumb caption parse_mode
              disable_content_type_detection caption_entities name media_uuid thumb_uuid in
      (\<exists>self. r = Inr self) \<longrightarrow>
        attr_of r ''type'' = Some (PStr ''document'') \<and>
        entry_of r ''type'' = Some (PStr ''document''))"
  unfolding Let_def
  by (intro conjI type_of_animation type_of_photo type_of_video type_of_audio type_of_document)

theorem type_discriminant_of_each_kind_witness:
  "(\<exists>self. InputMediaAudio (MAudio \<lparr>audio_file_id = ''song'', audio_duration = 200,
        audio_performer = Some ''band'', audio_title = None\<rparr>) None None DEFAULT_NONE None None
        None None None ''m1'' ''t1'' = Inr self) \<and>
   entry_of (InputMediaAudio (MAudio \<lparr>audio_file_id = ''song'', audio_duration = 200,
        audio_performer = Some ''band'', audio_title = None\<rparr>) None None DEFAULT_NONE None None
        None None None ''m1'' ''t1'') ''type'' = Some (PStr ''audio'')"
proof -
  let ?call = "InputMediaAudio (MAudio \<lparr>audio_file_id = ''song'', audio_duration = 200,
        audio_performer = Some ''band'', audio_title = None\<rparr>) None None DEFAULT_NONE None None
        None None None ''m1'' ''t1''"
  have ok: "\<exists>self. ?call = Inr self"
    by (simp add: ctor_defs)
  note inst = type_discriminant_of_each_kind
    [where media = "MAudio \<lparr>audio_file_id = ''song'', audio_duration = 200,
        audio_performer = Some ''band'', audio_title = None\<rparr>"
       and caption = None and parse_mode = DEFAULT_NONE
       and caption_entities = None and name = None and media_uuid = "''m1''"
       and thumb = None and width = None and height = None and duration = None
       and supports_streaming = None and performer = None and title = None
       and disable_content_type_detection = None and thumb_uuid = "''t1''",
     unfolded Let_def]
  from inst have "(\<exists>self. ?call = Inr self) \<longrightarrow>
        attr_of ?call ''type'' = Some (PStr ''audio'') \<and>
        entry_of ?call ''type'' = Some (PStr ''audio'')"
    by (elim conjE) assumption
  with ok show ?thesis by simp
qed

text \<open>An extended store keeps its entries.\<close>

lemma prefix_nth: "prefix s s' \<Longrightarrow> a < length s \<Longrightarrow> s' ! a = s ! a"
  by (auto simp: prefix_def nth_append)

text \<open>
  The list comprehension extends the store when each call does, and its result does not
  depend on the store when the result of each call does not.
\<close>

lemma comprehension_extends:
  assumes "\<And>v s. prefix s (snd (ce_to_dict v s))"
  shows "prefix st (snd (comprehension ce_to_dict ces st))"
proof (induction ces arbitrary: st)
  case Nil
  show ?case by simp
next
  case (Cons ce ces)
  obtain r st1 where first: "ce_to_dict ce st = (r, st1)" by (cases "ce_to_dict ce st")
  with assms [of st ce] have ext1: "prefix st st1" by simp
  show ?case
  proof (cases r)
    case (Inl e)
    with first ext1 show ?thesis by simp
  next
    case (Inr d)
    from Cons.IH [of st1] ext1
    have "prefix st (snd (comprehension ce_to_dict ces st1))"
      by (rule prefix_order.trans [rotated])
    with first Inr show ?thesis
      by (auto split: prod.splits sum.splits)
  qed
qed

lemma comprehension_result:
  assumes "\<And>v s. fst (ce_to_dict v s) = ser v"
  shows "fst (comprehension ce_to_dict ces s) = fst (comprehension ce_to_dict ces t)"
proof (induction ces arbitrary: s t)
  case Nil
  show ?case by simp
next
  case (Cons ce ces)
  obtain r s1 where a: "ce_to_dict ce s = (r, s1)" by (cases "ce_to_dict ce s")
  obtain r' t1 where b: "ce_to_dict ce t = (r', t1)" by (cases "ce_to_dict ce t")
  from assms [of ce s] assms [of ce t] a b have same: "r' = r" by simp
  from Cons.IH [of s1 t1] a b same show ?case
    by (cases r) (auto split: prod.splits sum.splits)
qed

text \<open>
  One call of \<open>InputMedia.to_dict\<close> on the store, when the two methods it calls only extend
  the store: the store is extended, no existing dictionary changes, the returned address
  is new, and what is returned is determined by the attributes of the object.
\<close>

lemma InputMedia_to_dict_call:
  assumes self: "self < length s"
    and super: "\<And>s. self < length s \<Longrightarrow>
      (case super_to_dict self s of
         (d, s') \<Rightarrow> prefix s s' \<and> length s \<le> d \<and> d < length s' \<and> s' ! d = base (s ! self))"
    and ent: "\<And>v s. (case ce_to_dict v s of (r, s') \<Rightarrow> prefix s s' \<and> r = ser v)"
    and call: "InputMedia_to_dict super_to_dict ce_to_dict self s = (r, s')"
  shows "length s \<le> length s'"
    and "\<And>a. a < length s \<Longrightarrow> s' ! a = s ! a"
    and "\<And>d. r = Inr d \<Longrightarrow> length s \<le> d \<and> d < length s'"
    and "returned (r, s') =
      (case get_caption_entities (s ! self) of
         PNone \<Rightarrow> Inr (base (s ! self))
       | PList ces \<Rightarrow>
           (if ces \<noteq> []
            then (case fst (comprehension ce_to_dict ces []) of
                    Inl e \<Rightarrow> Inl e
                  | Inr ds \<Rightarrow> Inr ((base (s ! self))(''caption_entities'' \<mapsto> PList ds)))
            else Inr (base (s ! self)))
       | _ \<Rightarrow> Inl TypeError)"
proof -
  obtain d s1 where sup: "super_to_dict self s = (d, s1)" by (cases "super_to_dict self s")
  with super [OF self] have s1: "prefix s s1" "length s \<le> d" "d < length s1"
    "s1 ! d = base (s ! self)" by simp_all
  from s1(1) have len1: "length s \<le> length s1" by (rule prefix_length_le)
  from s1(1) have keep1: "s1 ! a = s ! a" if "a < length s" for a
    using that by (rule prefix_nth)
  from keep1 self have obj: "s1 ! self = s ! self" by simp
  have ent_ext: "prefix t (snd (ce_to_dict v t))" for v t
    using ent [where v = v and s = t] by (cases "ce_to_dict v t") simp
  have ent_res: "fst (ce_to_dict v t) = ser v" for v t
    using ent [where v = v and s = t] by (cases "ce_to_dict v t") simp
  have goal: "length s \<le> length s' \<and> (\<forall>a < length s. s' ! a = s ! a) \<and>
      (\<forall>d. r = Inr d \<longrightarrow> length s \<le> d \<and> d < length s') \<and>
      returned (r, s') =
      (case get_caption_entities (s ! self) of
         PNone \<Rightarrow> Inr (base (s ! self))
       | PList ces \<Rightarrow>
           (if ces \<noteq> []
            then (case fst (comprehension ce_to_dict ces []) of
                    Inl e \<Rightarrow> Inl e
                  | Inr ds \<Rightarrow> Inr ((base (s ! self))(''caption_entities'' \<mapsto> PList ds)))
            else Inr (base (s ! self)))
       | _ \<Rightarrow> Inl TypeError)"
  proof (cases "\<exists>ces. get_caption_entities (s ! self) = PList ces \<and> ces \<noteq> []")
    case False
    with call sup obj s1 len1 keep1 show ?thesis
      by (auto simp: InputMedia_to_dict_def split: pyval.splits if_splits)
  next
    case True
    then obtain ces where ces: "get_caption_entities (s ! self) = PList ces" "ces \<noteq> []"
      by blast
    obtain r2 s2 where comp: "comprehension ce_to_dict ces s1 = (r2, s2)"
      by (cases "comprehension ce_to_dict ces s1")
    from comprehension_extends [of ce_to_dict s1 ces, OF ent_ext] comp
    have ext2: "prefix s1 s2" by simp
    then have len2: "length s1 \<le> length s2" by (rule prefix_length_le)
    from ext2 have keep2: "s2 ! a = s1 ! a" if "a < length s1" for a
      using that by (rule prefix_nth)
    from comprehension_result [of ce_to_dict ser ces s1 "[]", OF ent_res] comp
    have res: "fst (comprehension ce_to_dict ces []) = r2" by simp
    show ?thesis
    proof (cases r2)
      case (Inl e)
      with call sup obj ces comp have "r = Inl e" "s' = s2"
        by (simp_all add: InputMedia_to_dict_def)
      with Inl res ces len1 len2 keep1 keep2 show ?thesis by auto
    next
      case (Inr ds)
      with call sup obj ces comp have out: "r = Inr d"
        "s' = s2[d := (s2 ! d)(''caption_entities'' \<mapsto> PList ds)]"
        by (simp_all add: InputMedia_to_dict_def)
      from s1 len2 have d2: "d < length s2" by simp
      from keep2 s1 have "s2 ! d = base (s ! self)" by simp
      with out d2 Inr res ces have "returned (r, s') =
          Inr ((base (s ! self))(''caption_entities'' \<mapsto> PList ds))"
        by simp
      moreover from out s1 len1 len2 keep1 keep2
      have "\<forall>a < length s. s' ! a = s ! a" by auto
      ultimately show ?thesis
        using out s1 len1 len2 d2 Inr res ces by simp
    qed
  qed
  from goal show "length s \<le> length s'" by simp
  from goal show "\<And>a. a < length s \<Longrightarrow> s' ! a = s ! a" by simp
  from goal show "\<And>d. r = Inr d \<Longrightarrow> length s \<le> d \<and> d < length s'" by simp
  from goal show "returned (r, s') =
      (case get_caption_entities (s ! self) of
         PNone \<Rightarrow> Inr (base (s ! self))
       | PList ces \<Rightarrow>
           (if ces \<noteq> []
            then (case fst (comprehension ce_to_dict ces []) of
                    Inl e \<Rightarrow> Inl e
                  | Inr ds \<Rightarrow> Inr ((base (s ! self))(''caption_entities'' \<mapsto> PList ds)))
            else Inr (base (s ! self)))
       | _ \<Rightarrow> Inl TypeError)" by simp
qed

text \<open>
  With the two calls as the spec describes them, the procedure returns the mapping that
  \<open>to_dict\<close> gives, at a new address.
\<close>

lemma MessageEntity_to_dict_calls:
  "comprehension MessageEntity_to_dict_call vs st = (entities_to_dicts vs, st)"
proof (induction vs rule: entities_to_dicts.induct)
  case 1
  show ?case by simp
next
  case (2 e vs)
  then show ?case
    by (simp add: MessageEntity_to_dict_call_def split: sum.splits)
qed (simp_all add: MessageEntity_to_dict_call_def)

lemma InputMedia_to_dict_refines:
  assumes "self < length st"
  shows "returned (InputMedia_to_dict TelegramObject_to_dict_call MessageEntity_to_dict_call
           self st) =
         (case to_dict (st ! self) of Inl e \<Rightarrow> Inl e | Inr (data, self') \<Rightarrow> Inr data)"
  using assms
  by (auto simp: InputMedia_to_dict_def TelegramObject_to_dict_call_def to_dict_def
      MessageEntity_to_dict_calls nth_append split: pyval.splits sum.splits)

text \<open>
  C9. \<open>to_dict\<close> has no effect on the record. The method is a procedure on a store that
  holds the record and every mapping; the two methods it calls, which are not among the
  sources, are taken as given: each only extends the store and returns a result that its
  argument determines, \<open>super().to_dict()\<close> a mapping at a new address. Then a call
  leaves every field of the record unchanged (and every other dictionary that existed), a
  second call does so too, and the two calls return equal mappings, the first mapping
  being what it was when it was returned.
\<close>

theorem to_dict_leaves_the_record_unchanged:
  assumes "self < length st"
    and "\<And>s. self < length s \<Longrightarrow>
      (case super_to_dict self s of
         (d, s') \<Rightarrow> prefix s s' \<and> length s \<le> d \<and> d < length s' \<and> s' ! d = base (s ! self))"
    and "\<And>v s. (case ce_to_dict v s of (r, s') \<Rightarrow> prefix s s' \<and> r = ser v)"
  shows "case InputMedia_to_dict super_to_dict ce_to_dict self st of
           (r1, st1) \<Rightarrow>
             st1 ! self = st ! self \<and>
             (\<forall>a < length st. st1 ! a = st ! a) \<and>
             (case InputMedia_to_dict super_to_dict ce_to_dict self st1 of
                (r2, st2) \<Rightarrow>
                  st2 ! self = st ! self \<and>
                  (\<forall>a < length st. st2 ! a = st ! a) \<and>
                  returned (r2, st2) = returned (r1, st1) \<and>
                  returned (r1, st2) = returned (r1, st1))"
proof -
  obtain r1 st1 where first: "InputMedia_to_dict super_to_dict ce_to_dict self st = (r1, st1)"
    by (cases "InputMedia_to_dict super_to_dict ce_to_dict self st")
  note one = InputMedia_to_dict_call [OF assms first]
  from one(1) assms(1) have self1: "self < length st1" by simp
  obtain r2 st2 where second: "InputMedia_to_dict super_to_dict ce_to_dict self st1 = (r2, st2)"
    by (cases "InputMedia_to_dict super_to_dict ce_to_dict self st1")
  note two = InputMedia_to_dict_call [OF self1 assms(2,3) second]
  from one(2) assms(1) have obj1: "st1 ! self = st ! self" by simp
  from one(2) have all1: "\<forall>a < length st. st1 ! a = st ! a" by simp
  from two(2) one(1,2) have all2: "\<forall>a < length st. st2 ! a = st ! a" by auto
  with assms(1) have obj2: "st2 ! self = st ! self" by simp
  from one(4) two(4) [unfolded obj1] have same: "returned (r2, st2) = returned (r1, st1)"
    by simp
  have kept: "returned (r1, st2) = returned (r1, st1)"
  proof (cases r1)
    case (Inl e)
    then show ?thesis by simp
  next
    case (Inr d)
    with one(3) have "d < length st1" by simp
    with two(2) Inr show ?thesis by simp
  qed
  from first second obj1 all1 obj2 all2 same kept show ?thesis by simp
qed

theorem to_dict_leaves_the_record_unchanged_witness:
  "\<exists>self.
     InputMediaPhoto (MFileInput (FStr ''id'')) (Some ''hello'') DEFAULT_NONE
       (Some [\<lparr>entity_type = ''bold'', entity_offset = 0, entity_length = 5\<rparr>]) None ''m1''
       = Inr self \<and>
     (case InputMedia_to_dict TelegramObject_to_dict_call MessageEntity_to_dict_call 0 [self] of
        (r1, st1) \<Rightarrow>
          st1 ! 0 = [self] ! 0 \<and>
          (\<forall>a < length [self]. st1 ! a = [self] ! a) \<and>
          (case InputMedia_to_dict TelegramObject_to_dict_call MessageEntity_to_dict_call 0 st1 of
             (r2, st2) \<Rightarrow>
               st2 ! 0 = [self] ! 0 \<and>
               (\<forall>a < length [self]. st2 ! a = [self] ! a) \<and>
               returned (r2, st2) = returned (r1, st1) \<and>
               returned (r1, st2) = returned (r1, st1)))"
proof -
  obtain self where call:
    "InputMediaPhoto (MFileInput (FStr ''id'')) (Some ''hello'') DEFAULT_NONE
       (Some [\<lparr>entity_type = ''bold'', entity_offset = 0, entity_length = 5\<rparr>]) None ''m1''
       = Inr self"
    by (simp add: ctor_defs)
  have super: "case TelegramObject_to_dict_call 0 s of
      (d, s') \<Rightarrow> prefix s s' \<and> length s \<le> d \<and> d < length s' \<and>
        s' ! d = TelegramObject_to_dict (s ! 0)" for s
    by (simp add: TelegramObject_to_dict_call_def)
  have ent: "case MessageEntity_to_dict_call v s of
      (r, s') \<Rightarrow> prefix s s' \<and>
        r = (case v of PEntity e \<Rightarrow> Inr (PDict (MessageEntity_to_dict e))
             | _ \<Rightarrow> Inl AttributeError)" for v s
    by (cases v) (simp_all add: MessageEntity_to_dict_call_def)
  have live: "0 < length [self]" by simp
  have "case InputMedia_to_dict TelegramObject_to_dict_call MessageEntity_to_dict_call 0 [self] of
        (r1, st1) \<Rightarrow>
          st1 ! 0 = [self] ! 0 \<and>
          (\<forall>a < length [self]. st1 ! a = [self] ! a) \<and>
          (case InputMedia_to_dict TelegramObject_to_dict_call MessageEntity_to_dict_call 0 st1 of
             (r2, st2) \<Rightarrow>
               st2 ! 0 = [self] ! 0 \<and>
               (\<forall>a < length [self]. st2 ! a = [self] ! a) \<and>
               returned (r2, st2) = returned (r1, st1) \<and>
               returned (r1, st2) = returned (r1, st1))"
    by (rule to_dict_leaves_the_record_unchanged
        [where self = 0 and st = "[self]" and super_to_dict = TelegramObject_to_dict_call
           and base = TelegramObject_to_dict and ce_to_dict = MessageEntity_to_dict_call
           and ser = "\<lambda>v. case v of PEntity e \<Rightarrow> Inr (PDict (MessageEntity_to_dict e))
                | _ \<Rightarrow> Inl AttributeError",
         OF live super ent])
  with call show ?thesis
    by (intro exI [of _ self] conjI)
qed

end
